theory Spec2Isabelle
  imports Main "HOL-Library.Monad_Syntax"
begin

section \<open>Values shared by both source files\<close>

text \<open>
  The repository has two source files: \<^verbatim>\<open>app.ts\<close>, which creates the Express
  application and registers the one route, and \<^verbatim>\<open>index.ts\<close>, which reads the
  port and starts the listener. Exceptions of the JavaScript runtime are values of the
  type \<open>error\<close>; a computation that may throw returns \<open>error + 'a\<close>.
\<close>

datatype error =
    RangeError
  | ERR_HTTP_HEADERS_SENT
  | NodeError string

datatype json = JString string | JObject "(string \<times> json) list"

section \<open>The clock and \<^verbatim>\<open>new Date().toISOString()\<close>\<close>

text \<open>
  A time value is a number of milliseconds since 1970-01-01T00:00:00Z. The functions
  below are the abstract operations of the ECMAScript specification (section
  "Time Values and Time Range" and following) that \<^verbatim>\<open>Date.prototype.toISOString\<close>
  is defined by, under their names there. Integer division on \<open>int\<close> rounds towards
  minus infinity, as ECMAScript's \<open>floor\<close> does, and \<open>mod\<close> takes the sign of the
  divisor, as ECMAScript's \<open>modulo\<close> does.
\<close>

definition msPerDay :: int where
  "msPerDay = 86400000"

definition Day :: "int \<Rightarrow> int" where
  "Day t = t div msPerDay"

definition TimeWithinDay :: "int \<Rightarrow> int" where
  "TimeWithinDay t = t mod msPerDay"

definition DaysInYear :: "int \<Rightarrow> int" where
  "DaysInYear y =
     (if y mod 400 = 0 then 366
      else if y mod 100 = 0 then 365
      else if y mod 4 = 0 then 366
      else 365)"

definition DayFromYear :: "int \<Rightarrow> int" where
  "DayFromYear y =
     365 * (y - 1970) + (y - 1969) div 4 - (y - 1901) div 100 + (y - 1601) div 400"

definition TimeFromYear :: "int \<Rightarrow> int" where
  "TimeFromYear y = msPerDay * DayFromYear y"

text \<open>
  ECMAScript defines \<open>YearFromTime t\<close> as the largest year \<open>y\<close> with
  \<open>TimeFromYear y \<le> t\<close>. \<open>findYear\<close> computes it by a search that starts from
  an estimate and moves one year at a time; lemma \<open>YearFromTime_largest\<close> below shows
  that the result is the year of that definition.
\<close>

lemma div_step:
  fixes a n :: int
  assumes "0 < n"
  shows "(a + 1) div n = a div n + (if (a + 1) mod n = 0 then 1 else 0)"
proof -
  define q r where "q = a div n" and "r = a mod n"
  have a: "a = n * q + r" by (simp add: q_def r_def)
  have r: "0 \<le> r" "r < n" using assms by (simp_all add: r_def)
  show ?thesis
  proof (cases "r + 1 = n")
    case True
    then have e: "a + 1 = n * (q + 1) + 0" using a by (simp add: algebra_simps)
    have "(a + 1) div n = q + 1" by (rule int_div_pos_eq [OF e]) (use assms in simp_all)
    moreover have "(a + 1) mod n = 0" by (rule int_mod_pos_eq [OF e]) (use assms in simp_all)
    ultimately show ?thesis by (simp add: q_def)
  next
    case False
    then have lt: "r + 1 < n" using r by simp
    have e: "a + 1 = n * q + (r + 1)" using a by simp
    have "(a + 1) div n = q" by (rule int_div_pos_eq [OF e]) (use r lt in simp_all)
    moreover have "(a + 1) mod n = r + 1" by (rule int_mod_pos_eq [OF e]) (use r lt in simp_all)
    ultimately show ?thesis using r by (simp add: q_def)
  qed
qed

lemma mod_shift:
  fixes y k n :: int
  shows "(y - n * k) mod n = 0 \<longleftrightarrow> y mod n = 0"
proof -
  have "(y - n * k) mod n = (y + n * (- k)) mod n" by simp
  also have "\<dots> = y mod n" by (rule mod_mult_self2)
  finally show ?thesis by simp
qed

lemma m4: "((y::int) - 1968) mod 4 = 0 \<longleftrightarrow> y mod 4 = 0"
  using mod_shift [of y 4 492] by simp
lemma m100: "((y::int) - 1900) mod 100 = 0 \<longleftrightarrow> y mod 100 = 0"
  using mod_shift [of y 100 19] by simp
lemma m400: "((y::int) - 1600) mod 400 = 0 \<longleftrightarrow> y mod 400 = 0"
  using mod_shift [of y 400 4] by simp
lemma m400_100: "(y::int) mod 400 = 0 \<Longrightarrow> y mod 100 = 0"
proof -
  assume "y mod 400 = 0"
  then have "400 dvd y" by (simp add: mod_eq_0_iff_dvd)
  moreover have "(100::int) dvd 400" by simp
  ultimately have "100 dvd y" by (rule dvd_trans [rotated])
  then show ?thesis by (simp add: mod_eq_0_iff_dvd)
qed
lemma m100_4: "(y::int) mod 100 = 0 \<Longrightarrow> y mod 4 = 0"
proof -
  assume "y mod 100 = 0"
  then have "100 dvd y" by (simp add: mod_eq_0_iff_dvd)
  moreover have "(4::int) dvd 100" by simp
  ultimately have "4 dvd y" by (rule dvd_trans [rotated])
  then show ?thesis by (simp add: mod_eq_0_iff_dvd)
qed

lemma DayFromYear_Suc: "DayFromYear (y + 1) = DayFromYear y + DaysInYear y"
proof -
  have a: "(y + 1 - 1969) div 4 = (y - 1969) div 4 + (if y mod 4 = 0 then 1 else 0)"
    using div_step [of 4 "y - 1969"] m4 [of y] by (simp add: algebra_simps)
  have b: "(y + 1 - 1901) div 100 = (y - 1901) div 100 + (if y mod 100 = 0 then 1 else 0)"
    using div_step [of 100 "y - 1901"] m100 [of y] by (simp add: algebra_simps)
  have c: "(y + 1 - 1601) div 400 = (y - 1601) div 400 + (if y mod 400 = 0 then 1 else 0)"
    using div_step [of 400 "y - 1601"] m400 [of y] by (simp add: algebra_simps)
  show ?thesis
    unfolding DayFromYear_def DaysInYear_def a b c
    using m400_100 [of y] m100_4 [of y] by auto
qed

lemma DaysInYear_cases: "DaysInYear y = 365 \<or> DaysInYear y = 366"
  by (simp add: DaysInYear_def)

function findYear :: "int \<Rightarrow> int \<Rightarrow> int" where
  "findYear d y =
     (if d < DayFromYear y then findYear d (y - 1)
      else if DayFromYear (y + 1) \<le> d then findYear d (y + 1)
      else y)"
  by pat_completeness auto
termination
proof (relation "measure (\<lambda>(d, y). nat (if d < DayFromYear y then DayFromYear y - d + 366
                                         else d - DayFromYear y))")
  show "wf (measure (\<lambda>(d, y). nat (if d < DayFromYear y then DayFromYear y - d + 366
                                    else d - DayFromYear y)))"
    by simp
next
  fix d y :: int
  assume "d < DayFromYear y"
  moreover have "DayFromYear y = DayFromYear (y - 1) + DaysInYear (y - 1)"
    using DayFromYear_Suc [of "y - 1"] by simp
  ultimately show "((d, y - 1), (d, y)) \<in> measure (\<lambda>(d, y).
      nat (if d < DayFromYear y then DayFromYear y - d + 366 else d - DayFromYear y))"
    using DaysInYear_cases [of "y - 1"] by auto
next
  fix d y :: int
  assume "\<not> d < DayFromYear y" and "DayFromYear (y + 1) \<le> d"
  then show "((d, y + 1), (d, y)) \<in> measure (\<lambda>(d, y).
      nat (if d < DayFromYear y then DayFromYear y - d + 366 else d - DayFromYear y))"
    using DayFromYear_Suc [of y] DaysInYear_cases [of y] by auto
qed

definition YearFromTime :: "int \<Rightarrow> int" where
  "YearFromTime t = findYear (Day t) (1970 + (Day t * 400) div 146097)"

definition InLeapYear :: "int \<Rightarrow> int" where
  "InLeapYear t = (if DaysInYear (YearFromTime t) = 366 then 1 else 0)"

definition DayWithinYear :: "int \<Rightarrow> int" where
  "DayWithinYear t = Day t - DayFromYear (YearFromTime t)"

definition monthOfDay :: "int \<Rightarrow> int \<Rightarrow> int" where
  "monthOfDay l d =
     (if d < 31 then 0
      else if d < 59 + l then 1
      else if d < 90 + l then 2
      else if d < 120 + l then 3
      else if d < 151 + l then 4
      else if d < 181 + l then 5
      else if d < 212 + l then 6
      else if d < 243 + l then 7
      else if d < 273 + l then 8
      else if d < 304 + l then 9
      else if d < 334 + l then 10
      else 11)"

definition MonthFromTime :: "int \<Rightarrow> int" where
  "MonthFromTime t = monthOfDay (InLeapYear t) (DayWithinYear t)"

definition dateOfDay :: "int \<Rightarrow> int \<Rightarrow> int \<Rightarrow> int" where
  "dateOfDay l m d =
     (if m = 0 then d + 1
      else if m = 1 then d - 30
      else if m = 2 then d - 58 - l
      else if m = 3 then d - 89 - l
      else if m = 4 then d - 119 - l
      else if m = 5 then d - 150 - l
      else if m = 6 then d - 180 - l
      else if m = 7 then d - 211 - l
      else if m = 8 then d - 242 - l
      else if m = 9 then d - 272 - l
      else if m = 10 then d - 303 - l
      else d - 333 - l)"

definition DateFromTime :: "int \<Rightarrow> int" where
  "DateFromTime t = dateOfDay (InLeapYear t) (MonthFromTime t) (DayWithinYear t)"

definition HourFromTime :: "int \<Rightarrow> int" where
  "HourFromTime t = (t div 3600000) mod 24"

definition MinFromTime :: "int \<Rightarrow> int" where
  "MinFromTime t = (t div 60000) mod 60"

definition SecFromTime :: "int \<Rightarrow> int" where
  "SecFromTime t = (t div 1000) mod 60"

definition msFromTime :: "int \<Rightarrow> int" where
  "msFromTime t = t mod 1000"

text \<open>
  \<open>TimeClip\<close> keeps the time values a \<^verbatim>\<open>Date\<close> can hold, at most 8.64e15
  milliseconds from the epoch on either side; \<open>None\<close> is the invalid date (NaN).
\<close>

definition TimeClip :: "int \<Rightarrow> int option" where
  "TimeClip t = (if 8640000000000000 < \<bar>t\<bar> then None else Some t)"

text \<open>\<^verbatim>\<open>new Date()\<close>: the clock reading \<open>now\<close>, clipped.\<close>

definition newDate :: "int \<Rightarrow> int option" where
  "newDate now = TimeClip now"

text \<open>
  Decimal digits, zero-padded to a fixed width. \<open>digits n k\<close> writes the \<open>n\<close> low
  decimal digits of \<open>k\<close>.
\<close>

definition digitChar :: "nat \<Rightarrow> char" where
  "digitChar d = char_of (48 + d)"

fun digits :: "nat \<Rightarrow> nat \<Rightarrow> string" where
  "digits 0 k = []"
| "digits (Suc n) k = digits n (k div 10) @ [digitChar (k mod 10)]"

text \<open>
  The year of the Date Time String Format: four digits for the years 0 to 9999, and the
  expanded form, a sign and six digits, for every other year.
\<close>

definition yearString :: "int \<Rightarrow> string" where
  "yearString y =
     (if 0 \<le> y \<and> y \<le> 9999 then digits 4 (nat y)
      else (if y < 0 then ''-'' else ''+'') @ digits 6 (nat \<bar>y\<bar>))"

text \<open>
  \<^verbatim>\<open>Date.prototype.toISOString\<close>: throws a RangeError on the invalid date, and
  otherwise writes \<^verbatim>\<open>YYYY-MM-DDTHH:mm:ss.sssZ\<close> in UTC.
\<close>

fun toISOString :: "int option \<Rightarrow> error + string" where
  "toISOString None = Inl RangeError"
| "toISOString (Some t) =
     Inr (yearString (YearFromTime t) @ ''-'' @ digits 2 (nat (MonthFromTime t + 1))
          @ ''-'' @ digits 2 (nat (DateFromTime t))
          @ ''T'' @ digits 2 (nat (HourFromTime t))
          @ '':'' @ digits 2 (nat (MinFromTime t))
          @ '':'' @ digits 2 (nat (SecFromTime t))
          @ ''.'' @ digits 3 (nat (msFromTime t)) @ ''Z'')"


section \<open>Reading a timestamp back\<close>

text \<open>
  The specification asks that the timestamp parses as an ISO-8601 datetime. \<open>parseISO\<close>
  is a reader for the Date Time String Format of ECMAScript, the profile of ISO-8601 that
  \<^verbatim>\<open>Date.parse\<close> accepts: \<^verbatim>\<open>YYYY-MM-DDTHH:mm:ss.sssZ\<close>, with the year
  either four digits or a sign and six digits (\<^verbatim>\<open>-000000\<close> is not a year). It
  checks the range of every field, the day against the length of its month, and returns
  the time value that \<open>MakeDay\<close>, \<open>MakeTime\<close> and \<open>MakeDate\<close> of ECMAScript
  give, clipped. It is written from the format, not from \<open>toISOString\<close>.
\<close>

definition isDigit :: "char \<Rightarrow> bool" where
  "isDigit c = (48 \<le> (of_char c :: nat) \<and> (of_char c :: nat) \<le> 57)"

definition digitVal :: "char \<Rightarrow> nat" where
  "digitVal c = of_char c - 48"

fun readDigits :: "nat \<Rightarrow> nat \<Rightarrow> string \<Rightarrow> (nat \<times> string) option" where
  "readDigits 0 acc s = Some (acc, s)"
| "readDigits (Suc n) acc [] = None"
| "readDigits (Suc n) acc (c # s) =
     (if isDigit c then readDigits n (10 * acc + digitVal c) s else None)"

fun expect :: "char \<Rightarrow> string \<Rightarrow> string option" where
  "expect c [] = None"
| "expect c (x # s) = (if x = c then Some s else None)"

fun parseYear :: "string \<Rightarrow> (int \<times> string) option" where
  "parseYear [] = None"
| "parseYear (c # s) =
     (if c = CHR ''+'' then
        (case readDigits 6 0 s of None \<Rightarrow> None | Some (y, r) \<Rightarrow> Some (int y, r))
      else if c = CHR ''-'' then
        (case readDigits 6 0 s of None \<Rightarrow> None
         | Some (y, r) \<Rightarrow> if y = 0 then None else Some (- int y, r))
      else
        (case readDigits 4 0 (c # s) of None \<Rightarrow> None | Some (y, r) \<Rightarrow> Some (int y, r)))"

definition leapDays :: "int \<Rightarrow> int" where
  "leapDays y = DaysInYear y - 365"

definition daysBeforeMonth :: "int \<Rightarrow> int \<Rightarrow> int" where
  "daysBeforeMonth l m =
     (if m = 0 then 0
      else if m = 1 then 31
      else if m = 2 then 59 + l
      else if m = 3 then 90 + l
      else if m = 4 then 120 + l
      else if m = 5 then 151 + l
      else if m = 6 then 181 + l
      else if m = 7 then 212 + l
      else if m = 8 then 243 + l
      else if m = 9 then 273 + l
      else if m = 10 then 304 + l
      else 334 + l)"

definition DaysInMonth :: "int \<Rightarrow> int \<Rightarrow> int" where
  "DaysInMonth l m =
     (if m = 1 then 28 + l
      else if m = 3 \<or> m = 5 \<or> m = 8 \<or> m = 10 then 30
      else 31)"

definition MakeDay :: "int \<Rightarrow> int \<Rightarrow> int \<Rightarrow> int" where
  "MakeDay year month date = DayFromYear year + daysBeforeMonth (leapDays year) month + date - 1"

definition MakeTime :: "int \<Rightarrow> int \<Rightarrow> int \<Rightarrow> int \<Rightarrow> int" where
  "MakeTime hour minute sec ms = hour * 3600000 + minute * 60000 + sec * 1000 + ms"

definition MakeDate :: "int \<Rightarrow> int \<Rightarrow> int" where
  "MakeDate day time = day * msPerDay + time"

definition parseISO :: "string \<Rightarrow> int option" where
  "parseISO s = do {
     (y, r) \<leftarrow> parseYear s;
     r \<leftarrow> expect (CHR ''-'') r;
     (mo, r) \<leftarrow> readDigits 2 0 r;
     r \<leftarrow> expect (CHR ''-'') r;
     (d, r) \<leftarrow> readDigits 2 0 r;
     r \<leftarrow> expect (CHR ''T'') r;
     (h, r) \<leftarrow> readDigits 2 0 r;
     r \<leftarrow> expect (CHR '':'') r;
     (mi, r) \<leftarrow> readDigits 2 0 r;
     r \<leftarrow> expect (CHR '':'') r;
     (se, r) \<leftarrow> readDigits 2 0 r;
     r \<leftarrow> expect (CHR ''.'') r;
     (ms, r) \<leftarrow> readDigits 3 0 r;
     r \<leftarrow> expect (CHR ''Z'') r;
     if r = [] \<and> 1 \<le> mo \<and> mo \<le> 12 \<and> 1 \<le> d
        \<and> int d \<le> DaysInMonth (leapDays y) (int mo - 1)
        \<and> h \<le> 23 \<and> mi \<le> 59 \<and> se \<le> 59
     then TimeClip (MakeDate (MakeDay y (int mo - 1) (int d))
                             (MakeTime (int h) (int mi) (int se) (int ms)))
     else None
   }"


section \<open>The framework and the runtime\<close>

text \<open>
  The sources call Express and Node; neither is part of the repository, and the file
  \<^verbatim>\<open>package.json\<close> that would name the installed versions is not among the sources.
  What the properties below need of them is written out from their published code, and
  what differs between versions, or is computed by code that is not modelled, is a field
  of a record \<open>runtime\<close> over which every property is quantified:
  \<^item> \<open>listenErrorToCallback\<close>: whether \<^verbatim>\<open>app.listen\<close> also registers its
    callback for the \<^verbatim>\<open>error\<close> event of the server (Express 5 does, Express 4 does
    not);
  \<^item> \<open>noneMatchPrecedes\<close>: whether the freshness test lets \<^verbatim>\<open>If-None-Match\<close> take
    precedence over \<^verbatim>\<open>If-Modified-Since\<close> (the library \<^verbatim>\<open>fresh\<close> does from its
    version 1.0 on);
  \<^item> \<open>etagOf\<close>: the entity tag that Express computes from the serialised body (a
    hash);
  \<^item> \<open>setCharset\<close>: the rewriting of a \<^verbatim>\<open>Content-Type\<close> that is already set,
    to carry the charset \<^verbatim>\<open>utf-8\<close>;
  \<^item> \<open>urlParse\<close>: the path that \<^verbatim>\<open>url.parse\<close> of Node finds in a request
    target, if any;
  \<^item> \<open>notModifiedSince\<close>: the comparison of the dates of \<^verbatim>\<open>Last-Modified\<close> and
    \<^verbatim>\<open>If-Modified-Since\<close>.
\<close>

record runtime =
  listenErrorToCallback :: bool
  noneMatchPrecedes :: bool
  etagOf :: "json \<Rightarrow> string"
  setCharset :: "string \<Rightarrow> string"
  urlParse :: "string \<Rightarrow> string option"
  notModifiedSince :: "string \<Rightarrow> string \<Rightarrow> bool"

definition asciiLower :: "char \<Rightarrow> char" where
  "asciiLower c =
     (if 65 \<le> (of_char c :: nat) \<and> (of_char c :: nat) \<le> 90
      then char_of ((of_char c :: nat) + 32) else c)"

text \<open>
  A request: its method, its target (the \<^verbatim>\<open>url\<close> of Node: path and query
  string), its header lines as the HTTP parser delivers them (a name in any case, a
  value without surrounding white space) and its body.
\<close>

datatype http_method = GET | HEAD | POST | PUT | DELETE | PATCH | OPTIONS

record request =
  reqMethod :: http_method
  url :: string
  reqHeaders :: "(string \<times> string) list"
  reqBody :: string

text \<open>
  \<^verbatim>\<open>req.headers\<close>: Node puts the names in lower case; of the lines of
  \<^verbatim>\<open>If-Modified-Since\<close> it keeps the first, and it joins the lines of
  \<^verbatim>\<open>If-None-Match\<close> and of \<^verbatim>\<open>Cache-Control\<close> with a comma and a space. A
  header is present for JavaScript when its value is not the empty string.
\<close>

definition headerLines :: "string \<Rightarrow> request \<Rightarrow> string list" where
  "headerLines name req =
     map snd (filter (\<lambda>(k, v). map asciiLower k = name) (reqHeaders req))"

fun joinValues :: "string list \<Rightarrow> string" where
  "joinValues [] = []"
| "joinValues [v] = v"
| "joinValues (v # w # vs) = v @ '', '' @ joinValues (w # vs)"

definition firstHeader :: "string \<Rightarrow> request \<Rightarrow> string option" where
  "firstHeader name req = (case headerLines name req of [] \<Rightarrow> None | v # vs \<Rightarrow> Some v)"

definition joinedHeader :: "string \<Rightarrow> request \<Rightarrow> string option" where
  "joinedHeader name req =
     (case headerLines name req of [] \<Rightarrow> None | v # vs \<Rightarrow> Some (joinValues (v # vs)))"

fun present :: "string option \<Rightarrow> bool" where
  "present None = False"
| "present (Some s) = (s \<noteq> [])"

fun strOf :: "string option \<Rightarrow> string" where
  "strOf None = []"
| "strOf (Some s) = s"

text \<open>
  The response object of Express, as far as the handler and \<^verbatim>\<open>res.send\<close> use it:
  the status code, the headers \<^verbatim>\<open>Content-Type\<close>, \<^verbatim>\<open>ETag\<close> and
  \<^verbatim>\<open>Last-Modified\<close> (names are compared without regard to case), the body as the
  JSON value that is serialised (\<open>None\<close> when no body is written), and whether the
  response has been sent. Node creates the response with the status 200.
\<close>

record response =
  statusCode :: nat
  resHeaders :: "(string \<times> string) list"
  resBody :: "json option"
  headersSent :: bool

definition freshResponse :: response where
  "freshResponse = \<lparr>statusCode = 200, resHeaders = [], resBody = None, headersSent = False\<rparr>"

definition res_status :: "nat \<Rightarrow> response \<Rightarrow> response" where
  "res_status code res = res\<lparr>statusCode := code\<rparr>"

definition sameName :: "string \<Rightarrow> string \<Rightarrow> bool" where
  "sameName a b = (map asciiLower a = map asciiLower b)"

definition res_get :: "string \<Rightarrow> response \<Rightarrow> string option" where
  "res_get name res =
     (case filter (\<lambda>(k, v). sameName k name) (resHeaders res) of
        [] \<Rightarrow> None
      | (k, v) # kvs \<Rightarrow> Some v)"

definition removeHeader :: "string \<Rightarrow> response \<Rightarrow> response" where
  "removeHeader name res =
     res\<lparr>resHeaders := filter (\<lambda>(k, v). \<not> sameName k name) (resHeaders res)\<rparr>"

definition setHeader :: "string \<Rightarrow> string \<Rightarrow> response \<Rightarrow> response" where
  "setHeader name v res =
     res\<lparr>resHeaders := filter (\<lambda>(k, v). \<not> sameName k name) (resHeaders res) @ [(name, v)]\<rparr>"

text \<open>
  The freshness test of the library \<^verbatim>\<open>fresh\<close>, which Express applies to the
  headers of the request and the validators of the response. A request with neither
  \<^verbatim>\<open>If-Modified-Since\<close> nor \<^verbatim>\<open>If-None-Match\<close> is never fresh, nor is one with
  \<^verbatim>\<open>Cache-Control: no-cache\<close>. The regular expression of the library for the
  latter is \<^verbatim>\<open>/(?:^|,)\s*?no-cache\s*?(?:,|$)/\<close>; \<open>jsSpace\<close> is the class
  \<^verbatim>\<open>\s\<close> on the characters a header can hold.
\<close>

definition jsSpace :: "char \<Rightarrow> bool" where
  "jsSpace c = ((of_char c :: nat) \<in> set [9, 10, 11, 12, 13, 32, 160])"

definition noCacheHere :: "string \<Rightarrow> bool" where
  "noCacheHere s =
     (let r = dropWhile jsSpace s in
      take 8 r = ''no-cache''
      \<and> (case dropWhile jsSpace (drop 8 r) of [] \<Rightarrow> True | c # t \<Rightarrow> c = CHR '',''))"

fun noCacheAfterComma :: "string \<Rightarrow> bool" where
  "noCacheAfterComma [] = False"
| "noCacheAfterComma (c # s) = ((c = CHR '','' \<and> noCacheHere s) \<or> noCacheAfterComma s)"

definition noCache :: "string \<Rightarrow> bool" where
  "noCache s = (noCacheHere s \<or> noCacheAfterComma s)"

text \<open>
  \<^verbatim>\<open>parseTokenList\<close> of the library: the pieces between the commas, each without
  the spaces before and after it.
\<close>

fun splitCommas :: "string \<Rightarrow> string list" where
  "splitCommas [] = [[]]"
| "splitCommas (c # s) =
     (if c = CHR '','' then [] # splitCommas s
      else (case splitCommas s of [] \<Rightarrow> [[c]] | t # ts \<Rightarrow> (c # t) # ts))"

definition trimSpaces :: "string \<Rightarrow> string" where
  "trimSpaces s =
     rev (dropWhile (\<lambda>c. c = CHR '' '') (rev (dropWhile (\<lambda>c. c = CHR '' '') s)))"

definition parseTokenList :: "string \<Rightarrow> string list" where
  "parseTokenList s = map trimSpaces (splitCommas s)"

definition etagMatches :: "string \<Rightarrow> string list \<Rightarrow> bool" where
  "etagMatches etag tokens =
     list_ex (\<lambda>m. m = etag \<or> m = ''W/'' @ etag \<or> ''W/'' @ m = etag) tokens"

definition modifiedOk :: "runtime \<Rightarrow> string option \<Rightarrow> string option \<Rightarrow> bool" where
  "modifiedOk rt modifiedSince lastModified =
     (if present modifiedSince
      then present lastModified \<and> notModifiedSince rt (strOf lastModified) (strOf modifiedSince)
      else True)"

definition fresh :: "runtime \<Rightarrow> request \<Rightarrow> string option \<Rightarrow> string option \<Rightarrow> bool" where
  "fresh rt req etag lastModified =
     (let modifiedSince = firstHeader ''if-modified-since'' req;
          noneMatch = joinedHeader ''if-none-match'' req;
          cacheControl = joinedHeader ''cache-control'' req
      in
        if \<not> present modifiedSince \<and> \<not> present noneMatch then False
        else if present cacheControl \<and> noCache (strOf cacheControl) then False
        else if noneMatchPrecedes rt then
          (if present noneMatch then
             (if strOf noneMatch = ''*'' then True
              else if \<not> present etag then False
              else etagMatches (strOf etag) (parseTokenList (strOf noneMatch)))
           else modifiedOk rt modifiedSince lastModified)
        else
          (if present noneMatch \<and> strOf noneMatch \<noteq> ''*'' then
             (if \<not> present etag then False
              else if etagMatches (strOf etag) (parseTokenList (strOf noneMatch))
              then modifiedOk rt modifiedSince lastModified
              else False)
           else modifiedOk rt modifiedSince lastModified))"

text \<open>
  \<^verbatim>\<open>req.fresh\<close> of Express: only a GET or HEAD request whose response has a
  status from 200 to 299, or 304, can be fresh.
\<close>

definition req_fresh :: "runtime \<Rightarrow> request \<Rightarrow> response \<Rightarrow> bool" where
  "req_fresh rt req res =
     ((reqMethod req = GET \<or> reqMethod req = HEAD)
      \<and> ((200 \<le> statusCode res \<and> statusCode res < 300) \<or> statusCode res = 304)
      \<and> fresh rt req (res_get ''ETag'' res) (res_get ''Last-Modified'' res))"

text \<open>
  \<^verbatim>\<open>res.json(obj)\<close>, which ends in \<^verbatim>\<open>res.send\<close>; \<open>req\<close> is the request that
  the response belongs to (\<^verbatim>\<open>res.req\<close>). On a response that has been sent, Node
  throws \<^verbatim>\<open>ERR_HTTP_HEADERS_SENT\<close>. Otherwise the steps are, in this order:
  \<^verbatim>\<open>Content-Type\<close> becomes the JSON media type with its charset, unless it is set
  already; the entity tag of the body becomes the header \<^verbatim>\<open>ETag\<close>, unless one is
  set; a fresh request turns the status into 304; with the status 204 or 304 the header
  \<^verbatim>\<open>Content-Type\<close> is removed, and with 204, 205 or 304 the body is empty; a HEAD
  request gets no body.
\<close>

definition res_end :: "bool \<Rightarrow> json \<Rightarrow> response \<Rightarrow> response" where
  "res_end noBody obj res =
     res\<lparr>resBody := (if noBody then None else Some obj), headersSent := True\<rparr>"

definition res_json :: "runtime \<Rightarrow> request \<Rightarrow> json \<Rightarrow> response \<Rightarrow> error + response" where
  "res_json rt req obj res =
     (if headersSent res then Inl ERR_HTTP_HEADERS_SENT
      else
        let res1 = setHeader ''Content-Type''
                     (case res_get ''Content-Type'' res of
                        None \<Rightarrow> ''application/json; charset=utf-8''
                      | Some v \<Rightarrow> setCharset rt v) res;
            res2 = (if \<not> present (res_get ''ETag'' res1) \<and> etagOf rt obj \<noteq> []
                    then setHeader ''ETag'' (etagOf rt obj) res1 else res1);
            res3 = (if req_fresh rt req res2 then res2\<lparr>statusCode := 304\<rparr> else res2);
            res4 = (if statusCode res3 = 204 \<or> statusCode res3 = 304
                    then removeHeader ''Content-Type'' res3 else res3);
            noBody = (statusCode res3 = 204 \<or> statusCode res3 = 205 \<or> statusCode res3 = 304)
        in Inr (res_end (noBody \<or> reqMethod req = HEAD) obj res4))"

section \<open>\<^verbatim>\<open>app.ts\<close>: the application and its one route\<close>

text \<open>
  The handler registered by \<^verbatim>\<open>app.route("/health").get((_, res) => ...)\<close>. It never
  reads its first parameter; the request reaches \<^verbatim>\<open>res.json\<close> only as the request
  of the response. \<open>now\<close> is the reading of the system clock that \<^verbatim>\<open>new Date()\<close>
  takes. The receiver \<^verbatim>\<open>res.status(200)\<close> is evaluated before the argument of
  \<^verbatim>\<open>json\<close>.
\<close>

definition healthBody :: "string \<Rightarrow> json" where
  "healthBody ts =
     JObject [(''status'', JString ''OK''),
              (''message'', JString ''Server is running''),
              (''timestamp'', JString ts)]"

definition healthHandler ::
    "runtime \<Rightarrow> int \<Rightarrow> request \<Rightarrow> response \<Rightarrow> error + response" where
  "healthHandler rt now req res =
     (let res1 = res_status 200 res in
      case toISOString (newDate now) of
        Inl e \<Rightarrow> Inl e
      | Inr ts \<Rightarrow> res_json rt req (healthBody ts) res1)"

text \<open>
  Routing. Express matches the route against the path of the request target, which the
  library \<^verbatim>\<open>parseurl\<close> finds: for a target that starts with a slash and has no
  \<^verbatim>\<open>#\<close> and no white space after it, the path is the part before the first
  \<^verbatim>\<open>?\<close>; every other target goes to \<^verbatim>\<open>url.parse\<close>. The application is
  created by \<^verbatim>\<open>express()\<close> with the default settings, under which routing is not
  case sensitive and not strict: the path \<^verbatim>\<open>/health\<close> is matched without regard to
  the case of ASCII letters, and with one optional trailing slash. A route with a GET
  handler also serves HEAD, and the router itself answers OPTIONS on a matched path with
  the allowed methods and the status 200. A request that no route handles is answered
  by the framework with the status 404; an exception thrown by a handler with the status
  500.
\<close>

definition needsUrlParse :: "char \<Rightarrow> bool" where
  "needsUrlParse c = ((of_char c :: nat) \<in> set [9, 10, 12, 13, 32, 35, 160])"

definition pathname :: "runtime \<Rightarrow> string \<Rightarrow> string option" where
  "pathname rt u =
     (case u of
        [] \<Rightarrow> urlParse rt u
      | c # s \<Rightarrow>
          if c = CHR ''/'' \<and> \<not> list_ex needsUrlParse s
          then Some (takeWhile (\<lambda>c. c \<noteq> CHR ''?'') u)
          else urlParse rt u)"

fun routeMatches :: "string option \<Rightarrow> bool" where
  "routeMatches None = False"
| "routeMatches (Some p) = (map asciiLower p = ''/health'' \<or> map asciiLower p = ''/health/'')"

datatype outcome = Handled "error + response" | AllowAnswer | NotFound

definition app :: "runtime \<Rightarrow> int \<Rightarrow> request \<Rightarrow> outcome" where
  "app rt now req =
     (if routeMatches (pathname rt (url req)) then
        (if reqMethod req = GET \<or> reqMethod req = HEAD
         then Handled (healthHandler rt now req freshResponse)
         else if reqMethod req = OPTIONS then AllowAnswer
         else NotFound)
      else NotFound)"

definition httpStatus :: "outcome \<Rightarrow> nat" where
  "httpStatus out =
     (case out of
        Handled (Inr res) \<Rightarrow> statusCode res
      | Handled (Inl e) \<Rightarrow> 500
      | AllowAnswer \<Rightarrow> 200
      | NotFound \<Rightarrow> 404)"

text \<open>
  Reading a response written by a handler: the fields of its JSON body, whether it has a
  body at all, and the media type of its content.
\<close>

definition bodyFields :: "outcome \<Rightarrow> (string \<times> json) list" where
  "bodyFields out =
     (case out of
        Handled (Inr res) \<Rightarrow>
          (case resBody res of Some (JObject kvs) \<Rightarrow> kvs | Some (JString s) \<Rightarrow> [] | None \<Rightarrow> [])
      | Handled (Inl e) \<Rightarrow> []
      | AllowAnswer \<Rightarrow> []
      | NotFound \<Rightarrow> [])"

definition hasBody :: "outcome \<Rightarrow> bool" where
  "hasBody out =
     (case out of
        Handled (Inr res) \<Rightarrow> (case resBody res of Some b \<Rightarrow> True | None \<Rightarrow> False)
      | Handled (Inl e) \<Rightarrow> False
      | AllowAnswer \<Rightarrow> False
      | NotFound \<Rightarrow> False)"

definition stringField :: "string \<Rightarrow> outcome \<Rightarrow> string option" where
  "stringField k out =
     (case map_of (bodyFields out) k of
        Some (JString s) \<Rightarrow> Some s
      | Some (JObject kvs) \<Rightarrow> None
      | None \<Rightarrow> None)"

fun isString :: "json \<Rightarrow> bool" where
  "isString (JString s) = True"
| "isString (JObject kvs) = False"

definition mediaType :: "string \<Rightarrow> string" where
  "mediaType v = takeWhile (\<lambda>c. c \<noteq> CHR '';'') v"

definition contentType :: "outcome \<Rightarrow> string option" where
  "contentType out =
     (case out of
        Handled (Inr res) \<Rightarrow> map_option mediaType (res_get ''Content-Type'' res)
      | Handled (Inl e) \<Rightarrow> None
      | AllowAnswer \<Rightarrow> None
      | NotFound \<Rightarrow> None)"


section \<open>\<^verbatim>\<open>index.ts\<close>: the port and the start of the server\<close>

text \<open>
  The environment maps variable names to strings. \<^verbatim>\<open>process.env.PORT || 8000\<close> is
  the string when it is set and not empty (every non-empty string is truthy), and the
  number 8000 otherwise.
\<close>

type_synonym env = "string \<Rightarrow> string option"

datatype port = PortNumber nat | PortString string

definition PORT :: "env \<Rightarrow> port" where
  "PORT env =
     (case env ''PORT'' of
        None \<Rightarrow> PortNumber 8000
      | Some s \<Rightarrow> if s = [] then PortNumber 8000 else PortString s)"

text \<open>The text of a port inside a template literal.\<close>

fun decimal :: "nat \<Rightarrow> string" where
  "decimal n = (if n < 10 then [digitChar n] else decimal (n div 10) @ [digitChar (n mod 10)])"

fun portText :: "port \<Rightarrow> string" where
  "portText (PortNumber n) = decimal n"
| "portText (PortString s) = s"

text \<open>
  The process: the lines written by \<^verbatim>\<open>console.log\<close>; the error stream, which
  holds the calls of \<^verbatim>\<open>console.error\<close> and the report that Node prints for an
  exception that nothing catches; the exit code once the process has ended; and the
  arguments of the calls of \<^verbatim>\<open>listen\<close>. The three pictographs of the messages
  are written as their UTF-8 bytes.
\<close>

datatype error_line = ConsoleError string error | Uncaught error

record process =
  stdout :: "string list"
  stderr :: "error_line list"
  exitCode :: "nat option"
  listenCalls :: "port list"

definition initialProcess :: process where
  "initialProcess = \<lparr>stdout = [], stderr = [], exitCode = None, listenCalls = []\<rparr>"

definition console_log :: "string \<Rightarrow> process \<Rightarrow> process" where
  "console_log line p = p\<lparr>stdout := stdout p @ [line]\<rparr>"

definition console_error :: "string \<Rightarrow> error \<Rightarrow> process \<Rightarrow> process" where
  "console_error msg e p = p\<lparr>stderr := stderr p @ [ConsoleError msg e]\<rparr>"

definition process_exit :: "nat \<Rightarrow> process \<Rightarrow> process" where
  "process_exit code p = p\<lparr>exitCode := Some code\<rparr>"

definition rocket :: string where
  "rocket = [CHR 0xF0, CHR 0x9F, CHR 0x9A, CHR 0x80]"

definition barChart :: string where
  "barChart = [CHR 0xF0, CHR 0x9F, CHR 0x93, CHR 0x8A]"

definition crossMark :: string where
  "crossMark = [CHR 0xE2, CHR 0x9D, CHR 0x8C]"

definition runningLine :: "port \<Rightarrow> string" where
  "runningLine P = rocket @ '' Server running on http://localhost:'' @ portText P"

definition healthLine :: "port \<Rightarrow> string" where
  "healthLine P =
     barChart @ '' Health check available at http://localhost:'' @ portText P @ ''/health''"

definition failMessage :: string where
  "failMessage = crossMark @ '' Failed to start server:''"

text \<open>
  What \<^verbatim>\<open>app.listen(PORT, callback)\<close> does is decided by the operating system, a
  parameter of the model. The call either throws (Node does so for a port number outside
  the range from 0 to 65535), or returns the server, which later emits one event:
  \<^verbatim>\<open>listening\<close>, on which the callback runs, or \<^verbatim>\<open>error\<close>. A failure to bind,
  such as \<^verbatim>\<open>EADDRINUSE\<close> for an occupied port, is reported by the \<^verbatim>\<open>error\<close>
  event after \<^verbatim>\<open>listen\<close> has returned.
\<close>

datatype listen_event = Listening | ErrorEvent error

datatype listen_result = Returns listen_event | Throws error

definition listenCallback :: "port \<Rightarrow> process \<Rightarrow> process" where
  "listenCallback P p = console_log (healthLine P) (console_log (runningLine P) p)"

text \<open>
  \<open>startServer\<close> returns the process and the event that the server will emit, if
  \<^verbatim>\<open>listen\<close> returned. The \<^verbatim>\<open>catch\<close> block runs when \<^verbatim>\<open>listen\<close> throws.
\<close>

definition startServer ::
    "(port \<Rightarrow> listen_result) \<Rightarrow> port \<Rightarrow> process \<Rightarrow> process \<times> listen_event option" where
  "startServer listen P p =
     (let p1 = p\<lparr>listenCalls := listenCalls p @ [P]\<rparr> in
      case listen P of
        Returns ev \<Rightarrow> (p1, Some ev)
      | Throws e \<Rightarrow> (process_exit 1 (console_error failMessage e p1), None))"

text \<open>
  What the runtime does with an \<^verbatim>\<open>error\<close> event of the server. The module
  \<^verbatim>\<open>index.ts\<close> registers no listener for it. When \<^verbatim>\<open>app.listen\<close> has registered
  the callback for it, the callback runs, which ignores its argument and writes its two
  lines, and the process, with no server left, ends with the exit code 0. Otherwise the
  event has no listener: Node throws the error, nothing catches it, and Node prints it
  and ends the process with the exit code 1.
\<close>

definition onErrorEvent :: "runtime \<Rightarrow> port \<Rightarrow> error \<Rightarrow> process \<Rightarrow> process" where
  "onErrorEvent rt P e p =
     (if listenErrorToCallback rt then process_exit 0 (listenCallback P p)
      else process_exit 1 (p\<lparr>stderr := stderr p @ [Uncaught e]\<rparr>))"

text \<open>
  The module \<^verbatim>\<open>index.ts\<close>: it computes \<^verbatim>\<open>PORT\<close>, calls \<open>startServer\<close>, and
  then the event of the server is delivered. While the server listens the process runs
  on, with no exit code.
\<close>

definition index :: "runtime \<Rightarrow> env \<Rightarrow> (port \<Rightarrow> listen_result) \<Rightarrow> process" where
  "index rt env listen =
     (let P = PORT env in
      case startServer listen P initialProcess of
        (p, Some Listening) \<Rightarrow> listenCallback P p
      | (p, Some (ErrorEvent e)) \<Rightarrow> onErrorEvent rt P e p
      | (p, None) \<Rightarrow> p)"

text \<open>Whether the \<^verbatim>\<open>catch\<close> block of \<open>startServer\<close> has logged a failure.\<close>

fun isConsoleError :: "error_line \<Rightarrow> bool" where
  "isConsoleError (ConsoleError msg e) = True"
| "isConsoleError (Uncaught e) = False"

definition failureLogged :: "process \<Rightarrow> bool" where
  "failureLogged p = list_ex isConsoleError (stderr p)"

section \<open>The vocabulary of the properties\<close>

text \<open>
  A clock reading that a \<^verbatim>\<open>Date\<close> can hold; a GET request whose path is
  \<^verbatim>\<open>/health\<close>; a request that is not conditional, with neither
  \<^verbatim>\<open>If-Modified-Since\<close> nor \<^verbatim>\<open>If-None-Match\<close>; two requests that agree on the
  three headers that the freshness test reads; the timestamps of the responses that carry
  one; and three sample requests: a bare one, one with a query string, a header and a
  body, and a conditional one.
\<close>

definition validTime :: "int \<Rightarrow> bool" where
  "validTime now = (\<bar>now\<bar> \<le> 8640000000000000)"

definition healthRequest :: "runtime \<Rightarrow> request \<Rightarrow> bool" where
  "healthRequest rt req = (reqMethod req = GET \<and> pathname rt (url req) = Some ''/health'')"

definition unconditional :: "request \<Rightarrow> bool" where
  "unconditional req =
     (\<not> present (firstHeader ''if-modified-since'' req)
      \<and> \<not> present (joinedHeader ''if-none-match'' req))"

definition sameValidators :: "request \<Rightarrow> request \<Rightarrow> bool" where
  "sameValidators req req' =
     (firstHeader ''if-modified-since'' req = firstHeader ''if-modified-since'' req'
      \<and> joinedHeader ''if-none-match'' req = joinedHeader ''if-none-match'' req'
      \<and> joinedHeader ''cache-control'' req = joinedHeader ''cache-control'' req')"


definition monitor :: request where
  "monitor = \<lparr>reqMethod = GET, url = ''/health'', reqHeaders = [], reqBody = []\<rparr>"

definition probe :: request where
  "probe = \<lparr>reqMethod = GET, url = ''/health?from=monitor'',
            reqHeaders = [(''Accept'', ''text/plain'')], reqBody = ''ping''\<rparr>"

definition revalidate :: request where
  "revalidate = \<lparr>reqMethod = GET, url = ''/health'',
                 reqHeaders = [(''If-None-Match'', ''*'')], reqBody = []\<rparr>"

section \<open>Properties of the date functions\<close>

lemma findYear_spec:
  "DayFromYear (findYear d y) \<le> d \<and> d < DayFromYear (findYear d y + 1)"
proof (induction d y rule: findYear.induct)
  case (1 d y)
  show ?case
  proof (cases "d < DayFromYear y")
    case True
    with "1.IH"(1) show ?thesis by (subst (1 2) findYear.simps) simp
  next
    case False
    show ?thesis
    proof (cases "DayFromYear (y + 1) \<le> d")
      case True
      with False "1.IH"(2) show ?thesis by (subst (1 2) findYear.simps) simp
    next
      case b: False
      with False show ?thesis by (subst (1 2) findYear.simps) simp
    qed
  qed
qed


lemma div_bounds:
  fixes a n :: int
  assumes "0 < n"
  shows "n * (a div n) \<le> a" and "a < n * (a div n) + n"
proof -
  have "n * (a div n) + a mod n = a" by (rule mult_div_mod_eq)
  moreover have "0 \<le> a mod n" and "a mod n < n" using assms by simp_all
  ultimately show "n * (a div n) \<le> a" and "a < n * (a div n) + n" by linarith+
qed

lemma Day_bounds: "msPerDay * Day t \<le> t \<and> t < msPerDay * Day t + msPerDay"
  unfolding Day_def using div_bounds [of msPerDay t] by (simp add: msPerDay_def)

lemma YearFromTime_bounds:
  "DayFromYear (YearFromTime t) \<le> Day t \<and> Day t < DayFromYear (YearFromTime t + 1)"
  unfolding YearFromTime_def by (rule findYear_spec)

lemma DayFromYear_mono: "y \<le> z \<Longrightarrow> DayFromYear y \<le> DayFromYear z"
proof (induction "nat (z - y)" arbitrary: z)
  case 0
  then show ?case by simp
next
  case (Suc n)
  then have "n = nat ((z - 1) - y)" and "y \<le> z - 1" by simp_all
  then have "DayFromYear y \<le> DayFromYear (z - 1)" by (rule Suc.hyps(1))
  moreover have "DayFromYear (z - 1) \<le> DayFromYear z"
    using DayFromYear_Suc [of "z - 1"] DaysInYear_cases [of "z - 1"] by auto
  ultimately show ?case by simp
qed

lemma YearFromTime_largest:
  "TimeFromYear (YearFromTime t) \<le> t \<and> (\<forall>y. TimeFromYear y \<le> t \<longrightarrow> y \<le> YearFromTime t)"
proof
  have "msPerDay * DayFromYear (YearFromTime t) \<le> msPerDay * Day t"
    using YearFromTime_bounds [of t] by (simp add: msPerDay_def)
  with Day_bounds [of t] show "TimeFromYear (YearFromTime t) \<le> t"
    by (simp add: TimeFromYear_def msPerDay_def)
next
  show "\<forall>y. TimeFromYear y \<le> t \<longrightarrow> y \<le> YearFromTime t"
  proof (intro allI impI)
    fix y assume a: "TimeFromYear y \<le> t"
    show "y \<le> YearFromTime t"
    proof (rule ccontr)
      assume "\<not> y \<le> YearFromTime t"
      then have "YearFromTime t + 1 \<le> y" by simp
      then have "DayFromYear (YearFromTime t + 1) \<le> DayFromYear y" by (rule DayFromYear_mono)
      with YearFromTime_bounds [of t] have "Day t + 1 \<le> DayFromYear y" by simp
      then have "msPerDay * (Day t + 1) \<le> msPerDay * DayFromYear y"
        by (simp add: msPerDay_def)
      then show False using a Day_bounds [of t] by (simp add: TimeFromYear_def msPerDay_def)
    qed
  qed
qed

lemma DayWithinYear_range:
  "0 \<le> DayWithinYear t \<and> DayWithinYear t < 365 + InLeapYear t"
  using YearFromTime_bounds [of t] DayFromYear_Suc [of "YearFromTime t"]
    DaysInYear_cases [of "YearFromTime t"]
  by (auto simp: DayWithinYear_def InLeapYear_def)

lemma InLeapYear_leapDays: "InLeapYear t = leapDays (YearFromTime t)"
  using DaysInYear_cases [of "YearFromTime t"] by (auto simp: InLeapYear_def leapDays_def)

lemma InLeapYear_cases: "InLeapYear t = 0 \<or> InLeapYear t = 1"
  by (simp add: InLeapYear_def)



lemma monthOfDay_range:
  assumes "l = 0 \<or> l = 1" and "0 \<le> d" and "d < 365 + l"
  shows "0 \<le> monthOfDay l d \<and> monthOfDay l d \<le> 11"
  by (simp add: monthOfDay_def)

lemma month_case:
  assumes "monthOfDay l d = m"
    and "1 \<le> dateOfDay l m d" and "dateOfDay l m d \<le> DaysInMonth l m"
    and "daysBeforeMonth l m + dateOfDay l m d - 1 = d"
  shows "1 \<le> dateOfDay l (monthOfDay l d) d
       \<and> dateOfDay l (monthOfDay l d) d \<le> DaysInMonth l (monthOfDay l d)
       \<and> daysBeforeMonth l (monthOfDay l d) + dateOfDay l (monthOfDay l d) d - 1 = d"
  using assms by simp

lemma dateOfDay_correct:
  assumes l: "l = 0 \<or> l = 1" and d0: "0 \<le> d" and d1: "d < 365 + l"
  shows "1 \<le> dateOfDay l (monthOfDay l d) d
       \<and> dateOfDay l (monthOfDay l d) d \<le> DaysInMonth l (monthOfDay l d)
       \<and> daysBeforeMonth l (monthOfDay l d) + dateOfDay l (monthOfDay l d) d - 1 = d"
proof -
  consider "d < 31" | "31 \<le> d" "d < 59 + l" | "59 + l \<le> d" "d < 90 + l"
    | "90 + l \<le> d" "d < 120 + l" | "120 + l \<le> d" "d < 151 + l"
    | "151 + l \<le> d" "d < 181 + l" | "181 + l \<le> d" "d < 212 + l"
    | "212 + l \<le> d" "d < 243 + l" | "243 + l \<le> d" "d < 273 + l"
    | "273 + l \<le> d" "d < 304 + l" | "304 + l \<le> d" "d < 334 + l"
    | "334 + l \<le> d"
    by linarith
  then show ?thesis
  proof cases
    case 1
    with l d0 show ?thesis
      by (intro month_case [where m = 0])
        (simp_all add: monthOfDay_def dateOfDay_def DaysInMonth_def daysBeforeMonth_def)
  next
    case 2
    with l show ?thesis
      by (intro month_case [where m = 1])
        (auto simp: monthOfDay_def dateOfDay_def DaysInMonth_def daysBeforeMonth_def)
  next
    case 3
    with l show ?thesis
      by (intro month_case [where m = 2])
        (auto simp: monthOfDay_def dateOfDay_def DaysInMonth_def daysBeforeMonth_def)
  next
    case 4
    with l show ?thesis
      by (intro month_case [where m = 3])
        (auto simp: monthOfDay_def dateOfDay_def DaysInMonth_def daysBeforeMonth_def)
  next
    case 5
    with l show ?thesis
      by (intro month_case [where m = 4])
        (auto simp: monthOfDay_def dateOfDay_def DaysInMonth_def daysBeforeMonth_def)
  next
    case 6
    with l show ?thesis
      by (intro month_case [where m = 5])
        (auto simp: monthOfDay_def dateOfDay_def DaysInMonth_def daysBeforeMonth_def)
  next
    case 7
    with l show ?thesis
      by (intro month_case [where m = 6])
        (auto simp: monthOfDay_def dateOfDay_def DaysInMonth_def daysBeforeMonth_def)
  next
    case 8
    with l show ?thesis
      by (intro month_case [where m = 7])
        (auto simp: monthOfDay_def dateOfDay_def DaysInMonth_def daysBeforeMonth_def)
  next
    case 9
    with l show ?thesis
      by (intro month_case [where m = 8])
        (auto simp: monthOfDay_def dateOfDay_def DaysInMonth_def daysBeforeMonth_def)
  next
    case 10
    with l show ?thesis
      by (intro month_case [where m = 9])
        (auto simp: monthOfDay_def dateOfDay_def DaysInMonth_def daysBeforeMonth_def)
  next
    case 11
    with l show ?thesis
      by (intro month_case [where m = 10])
        (auto simp: monthOfDay_def dateOfDay_def DaysInMonth_def daysBeforeMonth_def)
  next
    case 12
    with l d1 show ?thesis
      by (intro month_case [where m = 11])
        (auto simp: monthOfDay_def dateOfDay_def DaysInMonth_def daysBeforeMonth_def)
  qed
qed

lemma mod_hours: "(t::int) mod 86400000 = 3600000 * (t div 3600000 mod 24) + t mod 3600000"
  using zmod_zmult2_eq [of 24 t 3600000] by simp

lemma mod_minutes: "(t::int) mod 3600000 = 60000 * (t div 60000 mod 60) + t mod 60000"
  using zmod_zmult2_eq [of 60 t 60000] by simp

lemma mod_seconds: "(t::int) mod 60000 = 1000 * (t div 1000 mod 60) + t mod 1000"
  using zmod_zmult2_eq [of 60 t 1000] by simp

lemma MakeTime_nested:
  fixes h m s ms :: int
  assumes "T = 3600000 * h + R1" and "R1 = 60000 * m + R2" and "R2 = 1000 * s + ms"
  shows "T = MakeTime h m s ms"
  using assms by (simp add: MakeTime_def)

lemma time_fields:
  "TimeWithinDay t = MakeTime (HourFromTime t) (MinFromTime t) (SecFromTime t) (msFromTime t)"
  unfolding TimeWithinDay_def msPerDay_def HourFromTime_def MinFromTime_def SecFromTime_def
    msFromTime_def
  by (rule MakeTime_nested [OF mod_hours mod_minutes mod_seconds])

lemma mod_range:
  fixes a n m :: int
  assumes "0 < n" and "m = n - 1"
  shows "0 \<le> a mod n \<and> a mod n \<le> m"
  using assms pos_mod_bound [of n a] pos_mod_sign [of n a] by linarith

lemma HourFromTime_range: "0 \<le> HourFromTime t \<and> HourFromTime t \<le> 23"
  unfolding HourFromTime_def by (rule mod_range) simp_all

lemma MinFromTime_range: "0 \<le> MinFromTime t \<and> MinFromTime t \<le> 59"
  unfolding MinFromTime_def by (rule mod_range) simp_all

lemma SecFromTime_range: "0 \<le> SecFromTime t \<and> SecFromTime t \<le> 59"
  unfolding SecFromTime_def by (rule mod_range) simp_all

lemma msFromTime_range: "0 \<le> msFromTime t \<and> msFromTime t \<le> 999"
  unfolding msFromTime_def by (rule mod_range) simp_all

lemma time_split: "t = MakeDate (Day t) (TimeWithinDay t)"
  by (simp add: MakeDate_def Day_def TimeWithinDay_def)

lemma date_fields:
  "Day t = MakeDay (YearFromTime t) (MonthFromTime t) (DateFromTime t)"
proof -
  have "daysBeforeMonth (InLeapYear t) (MonthFromTime t) + DateFromTime t - 1 = DayWithinYear t"
    unfolding MonthFromTime_def DateFromTime_def
    using dateOfDay_correct [OF InLeapYear_cases [of t], of "DayWithinYear t"]
      DayWithinYear_range [of t] by blast
  then show ?thesis
    unfolding MakeDay_def InLeapYear_leapDays DayWithinYear_def by linarith
qed

lemma date_fields_range:
  "0 \<le> MonthFromTime t \<and> MonthFromTime t \<le> 11 \<and> 1 \<le> DateFromTime t
   \<and> DateFromTime t \<le> DaysInMonth (leapDays (YearFromTime t)) (MonthFromTime t)"
  unfolding MonthFromTime_def DateFromTime_def InLeapYear_leapDays [symmetric]
  using dateOfDay_correct [OF InLeapYear_cases [of t], of "DayWithinYear t"]
    monthOfDay_range [OF InLeapYear_cases [of t], of "DayWithinYear t"]
    DayWithinYear_range [of t]
  by blast


lemma length_digits: "length (digits n k) = n"
  by (induction n arbitrary: k) simp_all

lemma isDigit_digitChar: "d < 10 \<Longrightarrow> isDigit (digitChar d)"
  by (simp add: isDigit_def digitChar_def)

lemma digitVal_digitChar: "d < 10 \<Longrightarrow> digitVal (digitChar d) = d"
  by (simp add: digitVal_def digitChar_def)

lemma readDigits_digits_gen:
  "k < 10 ^ n \<Longrightarrow>
     readDigits (n + m) acc (digits n k @ r) = readDigits m (acc * 10 ^ n + k) r"
proof (induction n arbitrary: k m r)
  case 0
  then show ?case by simp
next
  case (Suc n)
  from Suc.prems have k: "k div 10 < 10 ^ n" by (simp add: less_mult_imp_div_less mult.commute)
  have d: "k mod 10 < 10" by simp
  have "readDigits (Suc n + m) acc (digits (Suc n) k @ r)
      = readDigits (n + Suc m) acc (digits n (k div 10) @ (digitChar (k mod 10) # r))"
    by simp
  also have "\<dots> = readDigits (Suc m) (acc * 10 ^ n + k div 10) (digitChar (k mod 10) # r)"
    by (rule Suc.IH [OF k])
  also have "\<dots> = readDigits m (10 * (acc * 10 ^ n + k div 10) + k mod 10) r"
    using isDigit_digitChar [OF d] digitVal_digitChar [OF d] by simp
  also have "10 * (acc * 10 ^ n + k div 10) + k mod 10 = acc * 10 ^ Suc n + k"
    by (simp add: algebra_simps)
  finally show ?case .
qed

lemma readDigits_digits:
  "k < 10 ^ n \<Longrightarrow> readDigits n 0 (digits n k @ r) = Some (k, r)"
  using readDigits_digits_gen [of k n 0 0 r] by simp

lemma digits_Suc_head: "\<exists>c s. digits (Suc n) k = c # s \<and> isDigit c"
proof (induction n arbitrary: k)
  case 0
  have "k mod 10 < 10" by simp
  then show ?case by (simp add: isDigit_digitChar)
next
  case (Suc n)
  from Suc.IH [of "k div 10"] obtain c s where "digits (Suc n) (k div 10) = c # s" "isDigit c"
    by blast
  then have "digits (Suc (Suc n)) k = c # (s @ [digitChar (k mod 10)])" by simp
  with \<open>isDigit c\<close> show ?case by blast
qed

lemma isDigit_not_sign: "isDigit c \<Longrightarrow> c \<noteq> CHR ''+'' \<and> c \<noteq> CHR ''-''"
  by (auto simp: isDigit_def)

lemma parseYear_yearString:
  assumes "\<bar>y\<bar> < 1000000"
  shows "parseYear (yearString y @ r) = Some (y, r)"
proof (cases "0 \<le> y \<and> y \<le> 9999")
  case True
  then have k: "nat y < 10 ^ 4" by auto
  have e: "Suc 3 = 4" by simp
  from digits_Suc_head [of 3 "nat y"] obtain c s where
    cs: "digits 4 (nat y) = c # s" and c: "isDigit c"
    unfolding e by blast
  have "parseYear ((c # s) @ r)
      = (case readDigits 4 0 ((c # s) @ r) of None \<Rightarrow> None | Some (y, r) \<Rightarrow> Some (int y, r))"
    using isDigit_not_sign [OF c] by simp
  also have "\<dots> = Some (y, r)"
    unfolding cs [symmetric] readDigits_digits [OF k] using True by simp
  finally show ?thesis using True by (simp add: yearString_def cs)
next
  case False
  show ?thesis
  proof (cases "y < 0")
    case True
    with assms have k: "nat (- y) < 10 ^ 6" by simp
    from True show ?thesis by (simp add: yearString_def readDigits_digits [OF k])
  next
    case nonneg: False
    with assms have k: "nat y < 10 ^ 6" by simp
    from nonneg False show ?thesis by (simp add: yearString_def readDigits_digits [OF k])
  qed
qed

lemma parseISO_print:
  assumes "\<bar>y\<bar> < 1000000" and "mo < 10 ^ 2" and "d < 10 ^ 2" and "h < 10 ^ 2"
    and "mi < 10 ^ 2" and "se < 10 ^ 2" and "ms < 10 ^ 3"
  shows "parseISO (yearString y @ ''-'' @ digits 2 mo @ ''-'' @ digits 2 d
            @ ''T'' @ digits 2 h @ '':'' @ digits 2 mi @ '':'' @ digits 2 se
            @ ''.'' @ digits 3 ms @ ''Z'')
       = (if 1 \<le> mo \<and> mo \<le> 12 \<and> 1 \<le> d
             \<and> int d \<le> DaysInMonth (leapDays y) (int mo - 1)
             \<and> h \<le> 23 \<and> mi \<le> 59 \<and> se \<le> 59
          then TimeClip (MakeDate (MakeDay y (int mo - 1) (int d))
                                  (MakeTime (int h) (int mi) (int se) (int ms)))
          else None)"
  unfolding parseISO_def
  by (simp only: parseYear_yearString [OF assms(1)] readDigits_digits [OF assms(2)]
      readDigits_digits [OF assms(3)] readDigits_digits [OF assms(4)]
      readDigits_digits [OF assms(5)] readDigits_digits [OF assms(6)]
      readDigits_digits [OF assms(7)] bind.bind_lunit prod.case append_Cons append_Nil
      expect.simps if_True refl simp_thms)


lemma Day_range:
  assumes "\<bar>t\<bar> \<le> 8640000000000000"
  shows "- 100000000 \<le> Day t \<and> Day t \<le> 100000000"
proof
  show "- 100000000 \<le> Day t"
  proof (rule ccontr)
    assume "\<not> - 100000000 \<le> Day t"
    then have "Day t \<le> - 100000001" by simp
    then have "86400000 * Day t \<le> 86400000 * (- 100000001)" by simp
    with assms Day_bounds [of t] show False unfolding msPerDay_def by linarith
  qed
next
  show "Day t \<le> 100000000"
    using assms Day_bounds [of t] unfolding msPerDay_def by linarith
qed

lemma YearFromTime_range:
  assumes "\<bar>t\<bar> \<le> 8640000000000000"
  shows "- 271821 \<le> YearFromTime t \<and> YearFromTime t \<le> 275760"
proof
  have lo: "DayFromYear (- 271821) \<le> - 100000000" by (simp add: DayFromYear_def)
  show "- 271821 \<le> YearFromTime t"
  proof (rule ccontr)
    assume "\<not> - 271821 \<le> YearFromTime t"
    then have "YearFromTime t + 1 \<le> - 271821" by simp
    then have "DayFromYear (YearFromTime t + 1) \<le> DayFromYear (- 271821)"
      by (rule DayFromYear_mono)
    with lo Day_range [OF assms] YearFromTime_bounds [of t] show False by simp
  qed
next
  have up: "100000000 < DayFromYear 275761" by (simp add: DayFromYear_def)
  show "YearFromTime t \<le> 275760"
  proof (rule ccontr)
    assume "\<not> YearFromTime t \<le> 275760"
    then have "275761 \<le> YearFromTime t" by simp
    then have "DayFromYear 275761 \<le> DayFromYear (YearFromTime t)" by (rule DayFromYear_mono)
    with up Day_range [OF assms] YearFromTime_bounds [of t] show False by simp
  qed
qed

lemma nat_field:
  fixes x lo hi :: int
  assumes "lo \<le> x \<and> x \<le> hi" and "0 \<le> lo"
  shows "nat lo \<le> nat x \<and> nat x \<le> nat hi \<and> int (nat x) = x"
  using assms by auto

lemma toISOString_parseISO:
  assumes "\<bar>t\<bar> \<le> 8640000000000000"
  shows "\<exists>s. toISOString (newDate t) = Inr s \<and> parseISO s = Some t"
proof -
  define y where "y = YearFromTime t"
  define mo where "mo = nat (MonthFromTime t + 1)"
  define d where "d = nat (DateFromTime t)"
  define h where "h = nat (HourFromTime t)"
  define mi where "mi = nat (MinFromTime t)"
  define se where "se = nat (SecFromTime t)"
  define ms where "ms = nat (msFromTime t)"
  note dr = date_fields_range [of t]
  have dm: "DaysInMonth (leapDays y) (MonthFromTime t) \<le> 31"
    by (simp add: DaysInMonth_def leapDays_def DaysInYear_def)
  have y: "\<bar>y\<bar> < 1000000" using YearFromTime_range [OF assms] unfolding y_def by linarith
  have mo: "mo < 10 ^ 2" "1 \<le> mo" "mo \<le> 12" "int mo - 1 = MonthFromTime t"
  proof -
    from dr have "1 \<le> MonthFromTime t + 1 \<and> MonthFromTime t + 1 \<le> 12" by simp
    from nat_field [OF this] show "1 \<le> mo" and "mo \<le> 12" and "int mo - 1 = MonthFromTime t"
      by (simp_all add: mo_def)
    then show "mo < 10 ^ 2" by simp
  qed
  have d: "d < 10 ^ 2" "1 \<le> d" "int d = DateFromTime t"
  proof -
    from dr dm have "1 \<le> DateFromTime t \<and> DateFromTime t \<le> 31" by (simp add: y_def)
    from nat_field [OF this] show "1 \<le> d" and "int d = DateFromTime t" and "d < 10 ^ 2"
      by (simp_all add: d_def)
  qed
  have h: "h < 10 ^ 2" "h \<le> 23" "int h = HourFromTime t"
    using nat_field [OF HourFromTime_range [of t]] by (simp_all add: h_def)
  have mi: "mi < 10 ^ 2" "mi \<le> 59" "int mi = MinFromTime t"
    using nat_field [OF MinFromTime_range [of t]] by (simp_all add: mi_def)
  have se: "se < 10 ^ 2" "se \<le> 59" "int se = SecFromTime t"
    using nat_field [OF SecFromTime_range [of t]] by (simp_all add: se_def)
  have ms: "ms < 10 ^ 3" "int ms = msFromTime t"
    using nat_field [OF msFromTime_range [of t]] by (simp_all add: ms_def)
  have dim: "int d \<le> DaysInMonth (leapDays y) (int mo - 1)"
    using dr by (simp add: d mo y_def)
  have val: "MakeDate (MakeDay y (int mo - 1) (int d)) (MakeTime (int h) (int mi) (int se) (int ms))
      = t"
    unfolding mo d h mi se ms y_def date_fields [symmetric] time_fields [symmetric]
    by (rule time_split [symmetric])
  have clip: "TimeClip t = Some t" using assms by (simp add: TimeClip_def)
  have "toISOString (newDate t)
      = Inr (yearString y @ ''-'' @ digits 2 mo @ ''-'' @ digits 2 d
            @ ''T'' @ digits 2 h @ '':'' @ digits 2 mi @ '':'' @ digits 2 se
            @ ''.'' @ digits 3 ms @ ''Z'')"
    unfolding newDate_def clip y_def mo_def d_def h_def mi_def se_def ms_def by simp
  moreover have "parseISO (yearString y @ ''-'' @ digits 2 mo @ ''-'' @ digits 2 d
            @ ''T'' @ digits 2 h @ '':'' @ digits 2 mi @ '':'' @ digits 2 se
            @ ''.'' @ digits 3 ms @ ''Z'') = Some t"
    unfolding parseISO_print [OF y mo(1) d(1) h(1) mi(1) se(1) ms(1)] val clip
    using mo(2,3) d(2) dim h(2) mi(2) se(2) by simp
  ultimately show ?thesis by blast
qed



text \<open>
  The model on known values of \<^verbatim>\<open>toISOString\<close>: the epoch, an instant of 2024, the
  millisecond before the epoch, a leap day, and the two ends of the range of
  \<^verbatim>\<open>Date\<close>, beyond which the date is invalid.
\<close>

lemma digitChar_values:
  "digitChar 0 = CHR ''0''" "digitChar 1 = CHR ''1''" "digitChar 2 = CHR ''2''"
  "digitChar 3 = CHR ''3''" "digitChar 4 = CHR ''4''" "digitChar 5 = CHR ''5''"
  "digitChar 6 = CHR ''6''" "digitChar 7 = CHR ''7''" "digitChar 8 = CHR ''8''"
  "digitChar 9 = CHR ''9''" "digitChar (Suc 0) = CHR ''1''"
  by code_simp+

lemma digits_numeral:
  "digits (numeral n) k = digits (pred_numeral n) (k div 10) @ [digitChar (k mod 10)]"
proof -
  have "digits (numeral n) k = digits (Suc (pred_numeral n)) k"
    by (simp only: numeral_eq_Suc [of n])
  then show ?thesis by simp
qed

lemma digits_one: "digits 1 k = [digitChar (k mod 10)]"
  by simp

lemma fields_max:
  "YearFromTime 8640000000000000 = 275760" "MonthFromTime 8640000000000000 = 8"
  "DateFromTime 8640000000000000 = 13" "HourFromTime 8640000000000000 = 0"
  "MinFromTime 8640000000000000 = 0" "SecFromTime 8640000000000000 = 0"
  "msFromTime 8640000000000000 = 0"
  by code_simp+

lemma fields_min:
  "YearFromTime (- 8640000000000000) = - 271821" "MonthFromTime (- 8640000000000000) = 3"
  "DateFromTime (- 8640000000000000) = 20" "HourFromTime (- 8640000000000000) = 0"
  "MinFromTime (- 8640000000000000) = 0" "SecFromTime (- 8640000000000000) = 0"
  "msFromTime (- 8640000000000000) = 0"
  by code_simp+

lemma toISOString_limits:
  "toISOString (newDate 8640000000000000) = Inr ''+275760-09-13T00:00:00.000Z''"
  "toISOString (newDate (- 8640000000000000)) = Inr ''-271821-04-20T00:00:00.000Z''"
  "toISOString (newDate 8640000000000001) = Inl RangeError"
  "toISOString (newDate (- 8640000000000001)) = Inl RangeError"
  by (simp_all add: newDate_def TimeClip_def fields_max fields_min yearString_def
      digits_numeral digits_one digitChar_values)

lemma toISOString_examples:
  "toISOString (newDate 0) = Inr ''1970-01-01T00:00:00.000Z''"
  "toISOString (newDate 1730492834123) = Inr ''2024-11-01T20:27:14.123Z''"
  "toISOString (newDate (- 1)) = Inr ''1969-12-31T23:59:59.999Z''"
  "toISOString (newDate 951782400000) = Inr ''2000-02-29T00:00:00.000Z''"
  by code_simp+

lemma parseISO_examples:
  "parseISO ''2024-11-01T20:27:14.123Z'' = Some 1730492834123"
  "parseISO ''2023-02-29T00:00:00.000Z'' = None"
  "parseISO ''2024-11-01 20:27:14.123Z'' = None"
  by code_simp+


section \<open>Properties of the health route\<close>

lemma sameName_headers:
  "sameName ''Content-Type'' ''Content-Type''" "sameName ''ETag'' ''ETag''"
  "\<not> sameName ''Content-Type'' ''ETag''" "\<not> sameName ''ETag'' ''Content-Type''"
  "\<not> sameName ''Content-Type'' ''Last-Modified''" "\<not> sameName ''ETag'' ''Last-Modified''"
  by code_simp+

lemma routeMatches_samples:
  "routeMatches (Some ''/health'')" "routeMatches (Some ''/health/'')"
  "routeMatches (Some ''/HEALTH'')" "\<not> routeMatches (Some ''/unknown'')"
  by code_simp+

lemma pathname_plain:
  "pathname rt ''/health'' = Some ''/health''"
  "pathname rt ''/health?from=monitor'' = Some ''/health''"
  "pathname rt ''/health/'' = Some ''/health/''"
  "pathname rt ''/HEALTH'' = Some ''/HEALTH''"
  "pathname rt ''/unknown'' = Some ''/unknown''"
  by (simp_all add: pathname_def needsUrlParse_def)

lemma unconditional_not_fresh: "unconditional req \<Longrightarrow> \<not> fresh rt req etag lastModified"
  by (simp add: fresh_def unconditional_def)

lemma sameValidators_fresh:
  "sameValidators req req' \<Longrightarrow> fresh rt req etag lastModified = fresh rt req' etag lastModified"
  by (simp add: fresh_def sameValidators_def)

text \<open>
  The two responses that the handler can send: the JSON answer, and the answer 304 to a
  request that is fresh against the entity tag of that JSON answer.
\<close>

lemma res_json_health:
  assumes "reqMethod req = GET"
  shows "res_json rt req b (res_status 200 freshResponse)
    = Inr (if fresh rt req (if etagOf rt b = [] then None else Some (etagOf rt b)) None
           then \<lparr>statusCode = 304,
                 resHeaders = (if etagOf rt b = [] then [] else [(''ETag'', etagOf rt b)]),
                 resBody = None, headersSent = True\<rparr>
           else \<lparr>statusCode = 200,
                 resHeaders = (''Content-Type'', ''application/json; charset=utf-8'')
                   # (if etagOf rt b = [] then [] else [(''ETag'', etagOf rt b)]),
                 resBody = Some b, headersSent = True\<rparr>)"
  using assms
  by (simp add: res_json_def res_status_def freshResponse_def setHeader_def res_get_def
      removeHeader_def req_fresh_def res_end_def sameName_headers Let_def)

lemma app_health:
  assumes "validTime now" and "healthRequest rt req"
  shows "\<exists>ts. toISOString (newDate now) = Inr ts \<and> parseISO ts = Some now
    \<and> app rt now req = Handled (Inr
         (if fresh rt req (if etagOf rt (healthBody ts) = [] then None
                           else Some (etagOf rt (healthBody ts))) None
          then \<lparr>statusCode = 304,
                resHeaders = (if etagOf rt (healthBody ts) = [] then []
                              else [(''ETag'', etagOf rt (healthBody ts))]),
                resBody = None, headersSent = True\<rparr>
          else \<lparr>statusCode = 200,
                resHeaders = (''Content-Type'', ''application/json; charset=utf-8'')
                  # (if etagOf rt (healthBody ts) = [] then []
                     else [(''ETag'', etagOf rt (healthBody ts))]),
                resBody = Some (healthBody ts), headersSent = True\<rparr>))"
proof -
  from toISOString_parseISO [of now] assms(1) obtain ts where
    ts: "toISOString (newDate now) = Inr ts" "parseISO ts = Some now"
    by (auto simp: validTime_def)
  from assms(2) have g: "reqMethod req = GET" and p: "pathname rt (url req) = Some ''/health''"
    by (simp_all add: healthRequest_def)
  have "app rt now req = Handled (healthHandler rt now req freshResponse)"
    using g p by (simp add: app_def routeMatches_samples del: routeMatches.simps)
  also have "healthHandler rt now req freshResponse
      = res_json rt req (healthBody ts) (res_status 200 freshResponse)"
    using ts(1) by (simp add: healthHandler_def)
  finally show ?thesis using ts res_json_health [OF g, of rt "healthBody ts"] by simp
qed

text \<open>
  The answer to a GET request to \<^verbatim>\<open>/health\<close> is one of two: the JSON answer with
  the status 200, whose timestamp reads back as the clock reading, or the status 304 with
  no body and no \<^verbatim>\<open>Content-Type\<close>; and a request that is not conditional gets the
  first.
\<close>

lemma app_health_answer:
  assumes "validTime now" and "healthRequest rt req"
  shows "\<exists>ts. toISOString (newDate now) = Inr ts \<and> parseISO ts = Some now
    \<and> ((httpStatus (app rt now req) = 200 \<and> hasBody (app rt now req)
          \<and> bodyFields (app rt now req)
              = [(''status'', JString ''OK''), (''message'', JString ''Server is running''),
                 (''timestamp'', JString ts)]
          \<and> contentType (app rt now req) = Some ''application/json'')
        \<or> (httpStatus (app rt now req) = 304 \<and> \<not> hasBody (app rt now req)
            \<and> bodyFields (app rt now req) = [] \<and> contentType (app rt now req) = None
            \<and> \<not> unconditional req))"
proof -
  from app_health [OF assms] obtain ts where
    ts: "toISOString (newDate now) = Inr ts" "parseISO ts = Some now"
    and a: "app rt now req = Handled (Inr
         (if fresh rt req (if etagOf rt (healthBody ts) = [] then None
                           else Some (etagOf rt (healthBody ts))) None
          then \<lparr>statusCode = 304,
                resHeaders = (if etagOf rt (healthBody ts) = [] then []
                              else [(''ETag'', etagOf rt (healthBody ts))]),
                resBody = None, headersSent = True\<rparr>
          else \<lparr>statusCode = 200,
                resHeaders = (''Content-Type'', ''application/json; charset=utf-8'')
                  # (if etagOf rt (healthBody ts) = [] then []
                     else [(''ETag'', etagOf rt (healthBody ts))]),
                resBody = Some (healthBody ts), headersSent = True\<rparr>))"
    by blast
  show ?thesis
  proof (cases "fresh rt req (if etagOf rt (healthBody ts) = [] then None
                              else Some (etagOf rt (healthBody ts))) None")
    case True
    then have "\<not> unconditional req" using unconditional_not_fresh by blast
    with a True ts show ?thesis
      by (auto simp: httpStatus_def hasBody_def bodyFields_def contentType_def res_get_def
          sameName_headers)
  next
    case False
    with a ts show ?thesis
      by (auto simp: httpStatus_def hasBody_def bodyFields_def contentType_def res_get_def
          sameName_headers mediaType_def healthBody_def)
  qed
qed

lemma app_health_unconditional:
  assumes "validTime now" and "healthRequest rt req" and "unconditional req"
  shows "\<exists>ts. toISOString (newDate now) = Inr ts \<and> parseISO ts = Some now
    \<and> httpStatus (app rt now req) = 200 \<and> hasBody (app rt now req)
    \<and> bodyFields (app rt now req)
        = [(''status'', JString ''OK''), (''message'', JString ''Server is running''),
           (''timestamp'', JString ts)]
    \<and> contentType (app rt now req) = Some ''application/json''"
  using app_health_answer [OF assms(1,2)] assms(3) by blast

lemma sample_headers:
  "firstHeader ''if-modified-since'' monitor = None"
  "joinedHeader ''if-none-match'' monitor = None"
  "joinedHeader ''cache-control'' monitor = None"
  "firstHeader ''if-modified-since'' probe = None"
  "joinedHeader ''if-none-match'' probe = None"
  "joinedHeader ''cache-control'' probe = None"
  "firstHeader ''if-modified-since'' revalidate = None"
  "joinedHeader ''if-none-match'' revalidate = Some ''*''"
  "joinedHeader ''cache-control'' revalidate = None"
  by code_simp+

lemma sample_requests:
  "healthRequest rt monitor" "healthRequest rt probe" "healthRequest rt revalidate"
  "unconditional monitor" "unconditional probe" "sameValidators monitor probe"
  "monitor \<noteq> probe"
  by (simp_all add: healthRequest_def unconditional_def sameValidators_def sample_headers
      pathname_plain)
    (simp_all add: monitor_def probe_def revalidate_def pathname_plain)

lemma validTime_sample: "validTime 1730492834123"
  by (simp add: validTime_def)

lemma validTime_epoch: "validTime 0"
  by (simp add: validTime_def)

lemma revalidate_fresh: "fresh rt revalidate etag None"
  by (simp add: fresh_def sample_headers modifiedOk_def)

lemma app_revalidate:
  assumes "validTime now"
  shows "httpStatus (app rt now revalidate) = 304 \<and> \<not> hasBody (app rt now revalidate)
    \<and> bodyFields (app rt now revalidate) = [] \<and> contentType (app rt now revalidate) = None
    \<and> stringField k (app rt now revalidate) = None"
proof -
  from app_health [OF assms sample_requests(3), of rt] revalidate_fresh [of rt]
  obtain ts where "app rt now revalidate = Handled (Inr
          \<lparr>statusCode = 304,
                resHeaders = (if etagOf rt (healthBody ts) = [] then []
                              else [(''ETag'', etagOf rt (healthBody ts))]),
                resBody = None, headersSent = True\<rparr>)"
    by auto
  then show ?thesis
    by (auto simp: httpStatus_def hasBody_def bodyFields_def contentType_def res_get_def
        sameName_headers stringField_def)
qed

text \<open>
  Claim C1 does not hold as stated: Express answers a conditional GET request that it
  finds fresh with the status 304, without body and without \<^verbatim>\<open>Content-Type\<close>.
  Claim C1 as amended: every GET request to \<^verbatim>\<open>/health\<close> that is not conditional
  (no \<^verbatim>\<open>If-Modified-Since\<close> and no \<^verbatim>\<open>If-None-Match\<close>), whatever its query
  string, other headers and body, is answered with the status 200 and a JSON body whose
  keys are exactly \<^verbatim>\<open>status\<close>, \<^verbatim>\<open>message\<close> and \<^verbatim>\<open>timestamp\<close>, in this
  order, each with a string value, and with the media type \<^verbatim>\<open>application/json\<close>;
  and every GET request to \<^verbatim>\<open>/health\<close> gets either this answer or the status 304
  with no body and no \<^verbatim>\<open>Content-Type\<close>.
\<close>

theorem health_response:
  assumes "validTime now" and "healthRequest rt req"
  shows "(unconditional req \<longrightarrow>
            httpStatus (app rt now req) = 200
            \<and> map fst (bodyFields (app rt now req)) = [''status'', ''message'', ''timestamp'']
            \<and> list_all isString (map snd (bodyFields (app rt now req)))
            \<and> contentType (app rt now req) = Some ''application/json'')
    \<and> ((httpStatus (app rt now req) = 200
          \<and> map fst (bodyFields (app rt now req)) = [''status'', ''message'', ''timestamp'']
          \<and> list_all isString (map snd (bodyFields (app rt now req)))
          \<and> contentType (app rt now req) = Some ''application/json'')
        \<or> (httpStatus (app rt now req) = 304 \<and> \<not> hasBody (app rt now req)
            \<and> contentType (app rt now req) = None))"
proof -
  from app_health_answer [OF assms] obtain ts where
    "(httpStatus (app rt now req) = 200 \<and> hasBody (app rt now req)
          \<and> bodyFields (app rt now req)
              = [(''status'', JString ''OK''), (''message'', JString ''Server is running''),
                 (''timestamp'', JString ts)]
          \<and> contentType (app rt now req) = Some ''application/json'')
        \<or> (httpStatus (app rt now req) = 304 \<and> \<not> hasBody (app rt now req)
            \<and> bodyFields (app rt now req) = [] \<and> contentType (app rt now req) = None
            \<and> \<not> unconditional req)"
    by blast
  then show ?thesis by auto
qed

theorem health_response_witness:
  "\<forall>rt. validTime 1730492834123 \<and> healthRequest rt probe \<and> unconditional probe
    \<and> httpStatus (app rt 1730492834123 probe) = 200
    \<and> map fst (bodyFields (app rt 1730492834123 probe)) = [''status'', ''message'', ''timestamp'']
    \<and> list_all isString (map snd (bodyFields (app rt 1730492834123 probe)))
    \<and> contentType (app rt 1730492834123 probe) = Some ''application/json''"
  using health_response [OF validTime_sample sample_requests(2)] validTime_sample
    sample_requests(2,5)
  by blast

text \<open>
  The input at which claim C1 fails as stated: the GET request to \<^verbatim>\<open>/health\<close> with
  the header \<^verbatim>\<open>If-None-Match: *\<close> is answered with the status 304, no body and no
  \<^verbatim>\<open>Content-Type\<close>, whatever the versions of the libraries.
\<close>

theorem health_response_counterexample:
  "\<forall>rt. healthRequest rt revalidate
    \<and> httpStatus (app rt 1730492834123 revalidate) = 304
    \<and> bodyFields (app rt 1730492834123 revalidate) = []
    \<and> contentType (app rt 1730492834123 revalidate) = None"
  using app_revalidate [OF validTime_sample] sample_requests(3) by blast





text \<open>
  Claim C6 does not hold as stated: the response depends on the headers
  \<^verbatim>\<open>If-None-Match\<close>, \<^verbatim>\<open>If-Modified-Since\<close> and \<^verbatim>\<open>Cache-Control\<close> of the
  request, which the freshness test of Express reads. Claim C6 as amended: the response
  depends on nothing else of the request. Two GET requests to \<^verbatim>\<open>/health\<close> handled
  at the same clock reading that agree on these three headers, as two requests without
  them do, get the same response, whatever their query strings, other headers and
  bodies; no assumption on the clock is needed.
\<close>

theorem health_ignores_request:
  assumes "healthRequest rt req" and "healthRequest rt req'" and "sameValidators req req'"
  shows "app rt now req = app rt now req'
    \<and> httpStatus (app rt now req) = httpStatus (app rt now req')
    \<and> bodyFields (app rt now req) = bodyFields (app rt now req')"
proof -
  from assms(1,2) have g: "reqMethod req = GET" "reqMethod req' = GET"
    and p: "pathname rt (url req) = Some ''/health''" "pathname rt (url req') = Some ''/health''"
    by (simp_all add: healthRequest_def)
  have "res_json rt req b (res_status 200 freshResponse)
      = res_json rt req' b (res_status 200 freshResponse)" for b
    unfolding res_json_health [OF g(1)] res_json_health [OF g(2)]
      sameValidators_fresh [OF assms(3)] by (rule refl)
  then have "healthHandler rt now req freshResponse = healthHandler rt now req' freshResponse"
    by (simp add: healthHandler_def split: sum.splits)
  then have "app rt now req = app rt now req'"
    using g p by (simp add: app_def)
  then show ?thesis by simp
qed

theorem health_ignores_request_witness:
  "\<forall>rt. healthRequest rt monitor \<and> healthRequest rt probe \<and> sameValidators monitor probe
    \<and> monitor \<noteq> probe
    \<and> app rt 1730492834123 monitor = app rt 1730492834123 probe
    \<and> httpStatus (app rt 1730492834123 monitor) = httpStatus (app rt 1730492834123 probe)
    \<and> bodyFields (app rt 1730492834123 monitor) = bodyFields (app rt 1730492834123 probe)"
  using health_ignores_request [OF sample_requests(1) sample_requests(2) sample_requests(6),
      where now = 1730492834123]
    sample_requests(1,2,6,7)
  by blast

text \<open>
  The input at which claim C6 fails as stated: at one clock reading, the bare GET request
  to \<^verbatim>\<open>/health\<close> gets the status 200 and a body, and the same request with the
  header \<^verbatim>\<open>If-None-Match: *\<close> gets the status 304 and no body.
\<close>

theorem health_ignores_request_counterexample:
  "\<forall>rt. healthRequest rt monitor \<and> healthRequest rt revalidate
    \<and> httpStatus (app rt 1730492834123 monitor) = 200 \<and> hasBody (app rt 1730492834123 monitor)
    \<and> httpStatus (app rt 1730492834123 revalidate) = 304
    \<and> \<not> hasBody (app rt 1730492834123 revalidate)"
  using app_revalidate [OF validTime_sample]
    app_health_unconditional [OF validTime_sample sample_requests(1) sample_requests(4)]
    sample_requests(1,3)
  by blast

text \<open>
  A second \<^verbatim>\<open>res.json\<close> on a response that has been sent is refused, so a
  response is written once.
\<close>

lemma headersSent_res_end: "headersSent (res_end noBody obj res)"
  by (simp add: res_end_def)

lemma res_json_once:
  assumes "res_json rt req b res = Inr res'"
  shows "\<not> headersSent res \<and> headersSent res'
    \<and> res_json rt req' b' res' = Inl ERR_HTTP_HEADERS_SENT"
proof -
  have ns: "\<not> headersSent res"
  proof
    assume "headersSent res"
    with assms show False by (simp add: res_json_def)
  qed
  with assms obtain n r where "res' = res_end n b r"
    by (auto simp: res_json_def Let_def)
  then have "headersSent res'" by (simp add: headersSent_res_end)
  with ns show ?thesis by (simp add: res_json_def)
qed

text \<open>
  Claim C9 does not hold as stated: the one response is not always the status 200.
  Claim C9 as amended: the handler cannot fail. For every GET request to
  \<^verbatim>\<open>/health\<close> and every clock reading that a \<^verbatim>\<open>Date\<close> can hold,
  \<^verbatim>\<open>toISOString\<close> returns a string, the handler returns a response and not an
  exception, and the response has been sent, starting from a response that had not been
  sent; it has the status 200 and a body, or, for a conditional request only, the status
  304 and no body; the request is not left to the final handler of the framework. Every
  function of the model is total, so the handler terminates.
\<close>

theorem health_handler_infallible:
  assumes "validTime now" and "healthRequest rt req"
  shows "(\<exists>ts. toISOString (newDate now) = Inr ts)
    \<and> (\<exists>res. app rt now req = Handled (Inr res) \<and> headersSent res
          \<and> \<not> headersSent freshResponse
          \<and> ((statusCode res = 200 \<and> resBody res \<noteq> None)
              \<or> (statusCode res = 304 \<and> resBody res = None \<and> \<not> unconditional req)))
    \<and> (\<forall>e. app rt now req \<noteq> Handled (Inl e))
    \<and> app rt now req \<noteq> NotFound \<and> app rt now req \<noteq> AllowAnswer
    \<and> (unconditional req \<longrightarrow> httpStatus (app rt now req) = 200)"
proof -
  from app_health [OF assms] obtain ts where ts: "toISOString (newDate now) = Inr ts"
    and a: "app rt now req = Handled (Inr
         (if fresh rt req (if etagOf rt (healthBody ts) = [] then None
                           else Some (etagOf rt (healthBody ts))) None
          then \<lparr>statusCode = 304,
                resHeaders = (if etagOf rt (healthBody ts) = [] then []
                              else [(''ETag'', etagOf rt (healthBody ts))]),
                resBody = None, headersSent = True\<rparr>
          else \<lparr>statusCode = 200,
                resHeaders = (''Content-Type'', ''application/json; charset=utf-8'')
                  # (if etagOf rt (healthBody ts) = [] then []
                     else [(''ETag'', etagOf rt (healthBody ts))]),
                resBody = Some (healthBody ts), headersSent = True\<rparr>))"
    by blast
  from ts have "\<exists>ts. toISOString (newDate now) = Inr ts" by blast
  moreover from a unconditional_not_fresh [of req rt] have
    "\<exists>res. app rt now req = Handled (Inr res) \<and> headersSent res
          \<and> \<not> headersSent freshResponse
          \<and> ((statusCode res = 200 \<and> resBody res \<noteq> None)
              \<or> (statusCode res = 304 \<and> resBody res = None \<and> \<not> unconditional req))"
    by (auto simp: freshResponse_def)
  moreover from a have "\<forall>e. app rt now req \<noteq> Handled (Inl e)" by simp
  moreover from a have "app rt now req \<noteq> NotFound \<and> app rt now req \<noteq> AllowAnswer" by simp
  moreover from a unconditional_not_fresh [of req rt]
  have "unconditional req \<longrightarrow> httpStatus (app rt now req) = 200"
    by (auto simp: httpStatus_def)
  ultimately show ?thesis by blast
qed

theorem health_handler_infallible_witness:
  "\<forall>rt. validTime 1730492834123 \<and> healthRequest rt probe \<and> unconditional probe
    \<and> (\<exists>ts. toISOString (newDate 1730492834123) = Inr ts)
    \<and> (\<exists>res. app rt 1730492834123 probe = Handled (Inr res) \<and> headersSent res)
    \<and> (\<forall>e. app rt 1730492834123 probe \<noteq> Handled (Inl e))
    \<and> app rt 1730492834123 probe \<noteq> NotFound
    \<and> httpStatus (app rt 1730492834123 probe) = 200"
  using health_handler_infallible [OF validTime_sample sample_requests(2)] validTime_sample
    sample_requests(2,5)
  by blast

text \<open>
  The input at which claim C9 fails as stated: for the GET request to \<^verbatim>\<open>/health\<close>
  with the header \<^verbatim>\<open>If-None-Match: *\<close> the one response that is written has the
  status 304, not 200.
\<close>

theorem health_handler_infallible_counterexample:
  "\<forall>rt. validTime 0 \<and> healthRequest rt revalidate \<and> httpStatus (app rt 0 revalidate) = 304"
  using app_revalidate [OF validTime_epoch] validTime_epoch sample_requests(3) by blast








section \<open>Properties of the start of the server\<close>

lemma listenCalls_index: "listenCalls (index rt env listen) = [PORT env]"
  unfolding index_def
  by (cases "listen (PORT env)")
    (auto simp: startServer_def initialProcess_def listenCallback_def console_log_def
      console_error_def process_exit_def onErrorEvent_def Let_def split: listen_event.splits)

lemma stdout_index_listening:
  assumes "listen (PORT env) = Returns Listening"
  shows "stdout (index rt env listen) = [runningLine (PORT env), healthLine (PORT env)]"
  using assms
  by (simp add: index_def startServer_def initialProcess_def listenCallback_def
      console_log_def Let_def)

lemma portText_8000: "portText (PortNumber 8000) = ''8000''"
proof -
  have "digitChar 8 = CHR ''8'' \<and> digitChar 0 = CHR ''0''" by code_simp
  then show ?thesis by simp
qed

text \<open>
  Claim C3. When the variable \<^verbatim>\<open>PORT\<close> is not set, \<^verbatim>\<open>PORT\<close> is the number
  8000, \<^verbatim>\<open>listen\<close> is called once, with 8000, and when the server comes to listen
  the two lines of the callback name port 8000.
\<close>

theorem port_default:
  assumes "env ''PORT'' = None"
  shows "PORT env = PortNumber 8000
    \<and> listenCalls (index rt env listen) = [PortNumber 8000]
    \<and> (listen (PortNumber 8000) = Returns Listening \<longrightarrow>
         stdout (index rt env listen)
           = [rocket @ '' Server running on http://localhost:8000'',
              barChart @ '' Health check available at http://localhost:8000/health''])"
proof -
  from assms have P: "PORT env = PortNumber 8000" by (simp add: PORT_def)
  have "stdout (index rt env listen)
      = [rocket @ '' Server running on http://localhost:8000'',
         barChart @ '' Health check available at http://localhost:8000/health'']"
    if "listen (PortNumber 8000) = Returns Listening"
  proof -
    from that P have "listen (PORT env) = Returns Listening" by simp
    from stdout_index_listening [of listen env, OF this] show ?thesis
      unfolding P runningLine_def healthLine_def portText_8000 by simp
  qed
  with P listenCalls_index [of rt env listen] show ?thesis by simp
qed

theorem port_default_witness:
  "\<forall>rt. Map.empty ''PORT'' = None
    \<and> PORT Map.empty = PortNumber 8000
    \<and> listenCalls (index rt Map.empty (\<lambda>P. Returns Listening)) = [PortNumber 8000]
    \<and> stdout (index rt Map.empty (\<lambda>P. Returns Listening))
           = [rocket @ '' Server running on http://localhost:8000'',
              barChart @ '' Health check available at http://localhost:8000/health'']"
proof
  fix rt
  from port_default [of Map.empty rt "\<lambda>P. Returns Listening"]
  show "Map.empty ''PORT'' = None
    \<and> PORT Map.empty = PortNumber 8000
    \<and> listenCalls (index rt Map.empty (\<lambda>P. Returns Listening)) = [PortNumber 8000]
    \<and> stdout (index rt Map.empty (\<lambda>P. Returns Listening))
           = [rocket @ '' Server running on http://localhost:8000'',
              barChart @ '' Health check available at http://localhost:8000/health'']"
    by simp
qed

text \<open>
  Claim C10. When \<^verbatim>\<open>PORT\<close> is set to the empty string, the port is 8000 as well;
  every other string is handed to \<^verbatim>\<open>listen\<close> as it is, with no check that it is
  a number.
\<close>

theorem port_falsy_or_verbatim:
  "(env ''PORT'' = Some [] \<longrightarrow>
      PORT env = PortNumber 8000 \<and> listenCalls (index rt env listen) = [PortNumber 8000])
   \<and> (\<forall>s. env ''PORT'' = Some s \<and> s \<noteq> [] \<longrightarrow>
      PORT env = PortString s \<and> listenCalls (index rt env listen) = [PortString s])"
proof -
  note calls = listenCalls_index [of rt env listen]
  show ?thesis unfolding calls by (auto simp: PORT_def)
qed

theorem port_falsy_or_verbatim_witness:
  "\<forall>rt. PORT [''PORT'' \<mapsto> ''''] = PortNumber 8000
    \<and> listenCalls (index rt [''PORT'' \<mapsto> ''''] (\<lambda>P. Returns Listening)) = [PortNumber 8000]
    \<and> PORT [''PORT'' \<mapsto> ''not a number''] = PortString ''not a number''
    \<and> listenCalls (index rt [''PORT'' \<mapsto> ''not a number''] (\<lambda>P. Returns Listening))
        = [PortString ''not a number'']"
proof
  fix rt
  from port_falsy_or_verbatim [of "[''PORT'' \<mapsto> '''']" rt "\<lambda>P. Returns Listening"]
    port_falsy_or_verbatim [of "[''PORT'' \<mapsto> ''not a number'']" rt "\<lambda>P. Returns Listening"]
  show "PORT [''PORT'' \<mapsto> ''''] = PortNumber 8000
    \<and> listenCalls (index rt [''PORT'' \<mapsto> ''''] (\<lambda>P. Returns Listening)) = [PortNumber 8000]
    \<and> PORT [''PORT'' \<mapsto> ''not a number''] = PortString ''not a number''
    \<and> listenCalls (index rt [''PORT'' \<mapsto> ''not a number''] (\<lambda>P. Returns Listening))
        = [PortString ''not a number'']"
    by simp
qed

text \<open>
  When \<^verbatim>\<open>listen\<close> throws, the \<^verbatim>\<open>catch\<close> block of \<open>startServer\<close> writes
  the message with the exception to the error stream and the process exits with the code
  1, with nothing on the standard output.
\<close>

lemma startServer_throws:
  assumes "listen (PORT env) = Throws e"
  shows "index rt env listen
    = \<lparr>stdout = [], stderr = [ConsoleError failMessage e], exitCode = Some 1,
       listenCalls = [PORT env]\<rparr>"
    and "failureLogged (index rt env listen)"
  using assms
  by (simp_all add: index_def startServer_def initialProcess_def console_error_def
      process_exit_def failureLogged_def)

text \<open>
  Claim C4 says that a failure to bind, such as an occupied port, is caught and logged
  and ends the process with the exit code 1, with no line about a running server. The
  module does not do so. The port 8000 being occupied, \<^verbatim>\<open>listen\<close> returns and the
  failure arrives as the \<^verbatim>\<open>error\<close> event of the server, outside the \<^verbatim>\<open>try\<close>
  block: the \<^verbatim>\<open>catch\<close> block does not run and logs nothing. When
  \<^verbatim>\<open>app.listen\<close> hands the event to the callback, the callback writes its two lines
  about a running server and the process ends with the exit code 0; otherwise Node
  reports the uncaught error itself and ends the process with the exit code 1.
\<close>

theorem bind_failure_not_caught:
  "\<not> failureLogged (index rt Map.empty (\<lambda>P. Returns (ErrorEvent (NodeError ''EADDRINUSE''))))
    \<and> index rt Map.empty (\<lambda>P. Returns (ErrorEvent (NodeError ''EADDRINUSE'')))
      = (if listenErrorToCallback rt
         then \<lparr>stdout = [rocket @ '' Server running on http://localhost:8000'',
                        barChart @ '' Health check available at http://localhost:8000/health''],
               stderr = [], exitCode = Some 0, listenCalls = [PortNumber 8000]\<rparr>
         else \<lparr>stdout = [], stderr = [Uncaught (NodeError ''EADDRINUSE'')],
               exitCode = Some 1, listenCalls = [PortNumber 8000]\<rparr>)"
proof -
  have "index rt Map.empty (\<lambda>P. Returns (ErrorEvent (NodeError ''EADDRINUSE'')))
      = (if listenErrorToCallback rt
         then \<lparr>stdout = [runningLine (PortNumber 8000), healthLine (PortNumber 8000)],
               stderr = [], exitCode = Some 0, listenCalls = [PortNumber 8000]\<rparr>
         else \<lparr>stdout = [], stderr = [Uncaught (NodeError ''EADDRINUSE'')],
               exitCode = Some 1, listenCalls = [PortNumber 8000]\<rparr>)"
    by (simp add: index_def PORT_def startServer_def initialProcess_def onErrorEvent_def
        listenCallback_def console_log_def process_exit_def Let_def)
  then show ?thesis
    unfolding runningLine_def healthLine_def portText_8000
    by (simp add: failureLogged_def)
qed

end
